theory Spec2Isabelle
  imports Complex_Main
begin

section \<open>The generation job pipeline of \<open>backend/src/services/queueService.ts\<close>\<close>

text \<open>
  The service wraps a background-job library: two queues (image, video), one worker per
  queue, a processor per worker and the workers' \<open>completed\<close> and \<open>failed\<close> handlers.
  Everything the TypeScript does to the outside (rows of the relational store, HTTP calls
  to the AI service, socket events) is written here as a change of an explicit
  \<open>world\<close>; everything the outside answers (the HTTP response, the clock, a database
  call that rejects) comes from an explicit environment of the attempt. Calls to the
  logger only write log lines and are left out.
\<close>

subsection \<open>Data\<close>

text \<open>Untyped payloads (\<open>style: any\<close>, \<open>metadata Json?\<close>, socket payloads) are JSON values.\<close>

datatype json =
  JNull | JBool bool | JNum int | JStr string | JArr "json list" | JObj "(string \<times> json) list"

text \<open>\<open>enum ContentType\<close> and \<open>enum GenerationStatus\<close> of \<open>schema.prisma\<close>.\<close>

datatype ContentType = IMAGE | VIDEO

datatype GenerationStatus = PENDING | PROCESSING | COMPLETED | FAILED

fun ContentType_str :: "ContentType \<Rightarrow> string" where
  "ContentType_str IMAGE = ''IMAGE''"
| "ContentType_str VIDEO = ''VIDEO''"

text \<open>\<open>interface GenerationJobData\<close>; the field \<open>type\<close> is \<open>jtype\<close> here.\<close>

record GenerationJobData =
  userId :: string
  promptId :: string
  outputId :: string
  jtype :: ContentType
  prompt :: string
  style :: json
  audioTrackId :: "string option"

text \<open>
  \<open>model GeneratedOutput\<close> (the columns the service reads or writes, and the keys) and
  \<open>model UsageLog\<close> (the columns \<open>logUsage\<close> fills).
\<close>

record GeneratedOutput =
  o_id :: string
  o_userId :: string
  o_promptId :: string
  o_type :: ContentType
  status :: GenerationStatus
  filePath :: "string option"
  thumbnailPath :: "string option"
  metadata :: "json option"
  processingTime :: "int option"
  errorMessage :: "string option"

record UsageLog =
  l_userId :: string
  action :: string
  l_processingTime :: int
  l_metadata :: json

text \<open>A JavaScript exception: its class and its \<open>message\<close>.\<close>

datatype error = Error string | TypeError string | AxiosError string | PrismaError string

fun message :: "error \<Rightarrow> string" where
  "message (Error m) = m"
| "message (TypeError m) = m"
| "message (AxiosError m) = m"
| "message (PrismaError m) = m"

text \<open>
  An HTTP request as \<open>axios.post(url, body, {timeout})\<close> sends it (timeout in
  milliseconds), and the body of a successful response, of the shape
  \<open>{filePath, thumbnailPath, metadata}\<close> that the processors read.
\<close>

record http_request =
  url :: string
  body :: json
  timeout :: nat

record backend_response =
  r_filePath :: string
  r_thumbnailPath :: string
  r_metadata :: json

text \<open>One socket event: \<open>io.to(room).emit(event, payload)\<close>.\<close>

record emission =
  room :: string
  event :: string
  payload :: json

text \<open>
  The world the service acts on: the rows of \<open>generated_outputs\<close> by id, the rows of
  \<open>usage_logs\<close> in insertion order, the socket events emitted so far and the HTTP
  requests sent so far.
\<close>

record world =
  outputs :: "string \<rightharpoonup> GeneratedOutput"
  usageLogs :: "UsageLog list"
  emitted :: "emission list"
  requests :: "http_request list"

text \<open>
  What the outside answers during one attempt of a job: the value of
  \<open>process.env.AI_SERVICE_URL\<close>, the outcome of the HTTP call (\<open>Inl\<close>: axios rejects,
  on an error status, a network error or the timeout), the two readings of \<open>Date.now()\<close>,
  and for each database call of the attempt the error it rejects with, if the database
  rejects it (connection lost, constraint violated).
\<close>

datatype db_call = MarkProcessing | StoreResult | LogUsage | MarkFailed

record attempt_env =
  AI_SERVICE_URL :: "string option"
  axios_post :: "http_request \<Rightarrow> error + backend_response"
  startTime :: int
  endTime :: int
  db_fault :: "db_call \<Rightarrow> error option"

text \<open>
  An awaited call either resolves or rejects, and in both cases the world keeps the
  effects made so far: the result is \<open>(Inr (), w)\<close> or \<open>(Inl e, w)\<close>.
\<close>

type_synonym outcome = "(error + unit) \<times> world"

subsection \<open>Store and socket operations\<close>

text \<open>
  \<open>prisma.generatedOutput.update({where: {id}, data})\<close>: rejects when the database
  rejects the call and when no row has the id; otherwise the row's columns named in
  \<open>data\<close> are overwritten, whatever they held.
\<close>

definition generatedOutput_update ::
  "error option \<Rightarrow> string \<Rightarrow> (GeneratedOutput \<Rightarrow> GeneratedOutput) \<Rightarrow> world \<Rightarrow> outcome" where
  "generatedOutput_update fault oid upd w =
     (case fault of
        Some e \<Rightarrow> (Inl e, w)
      | None \<Rightarrow>
          (case outputs w oid of
             None \<Rightarrow> (Inl (PrismaError ''Record to update not found.''), w)
           | Some r \<Rightarrow> (Inr (), w\<lparr>outputs := (outputs w)(oid \<mapsto> upd r)\<rparr>)))"

definition updateGenerationStatus ::
  "error option \<Rightarrow> string \<Rightarrow> GenerationStatus \<Rightarrow> world \<Rightarrow> outcome" where
  "updateGenerationStatus fault oid st w =
     generatedOutput_update fault oid (\<lambda>r. r\<lparr>status := st\<rparr>) w"

definition logUsage ::
  "error option \<Rightarrow> string \<Rightarrow> string \<Rightarrow> int \<Rightarrow> json \<Rightarrow> world \<Rightarrow> outcome" where
  "logUsage fault uid act ptime meta w =
     (case fault of
        Some e \<Rightarrow> (Inl e, w)
      | None \<Rightarrow>
          (Inr (), w\<lparr>usageLogs := usageLogs w @
             [\<lparr>l_userId = uid, action = act, l_processingTime = ptime, l_metadata = meta\<rparr>]\<rparr>))"

definition notifyUser :: "string \<Rightarrow> string \<Rightarrow> json \<Rightarrow> world \<Rightarrow> world" where
  "notifyUser uid ev dat w =
     w\<lparr>emitted := emitted w @ [\<lparr>room = ''user-'' @ uid, event = ev, payload = dat\<rparr>]\<rparr>"

definition handleJobFailure ::
  "error option \<Rightarrow> GenerationJobData \<Rightarrow> string \<Rightarrow> world \<Rightarrow> outcome" where
  "handleJobFailure fault jobData msg w =
     (case generatedOutput_update fault (outputId jobData)
             (\<lambda>r. r\<lparr>status := FAILED, errorMessage := Some msg\<rparr>) w of
        (Inl e, w1) \<Rightarrow> (Inl e, w1)
      | (Inr _, w1) \<Rightarrow>
          (Inr (), notifyUser (userId jobData) ''generation-failed''
             (JObj [(''outputId'', JStr (outputId jobData)),
                    (''type'', JStr (ContentType_str (jtype jobData))),
                    (''error'', JStr msg)]) w1))"

subsection \<open>The processors\<close>

text \<open>
  \<open>Math.round((endTime - startTime) / 1000)\<close> on integer milliseconds: the nearest
  integer, a half rounded up.
\<close>

definition processingSeconds :: "int \<Rightarrow> int \<Rightarrow> int" where
  "processingSeconds start fin = (fin - start + 500) div 1000"

text \<open>The template literal \<open>`${process.env.AI_SERVICE_URL}/generate/...`\<close>.\<close>

definition serviceUrl :: "string option \<Rightarrow> string \<Rightarrow> string" where
  "serviceUrl base path = (case base of None \<Rightarrow> ''undefined'' | Some b \<Rightarrow> b) @ path"

text \<open>The two requests; a key whose value is \<open>undefined\<close> is not serialised.\<close>

definition imageRequest :: "string option \<Rightarrow> GenerationJobData \<Rightarrow> http_request" where
  "imageRequest base d =
     \<lparr>url = serviceUrl base ''/generate/image'',
      body = JObj [(''prompt'', JStr (prompt d)), (''style'', style d),
                   (''outputId'', JStr (outputId d))],
      timeout = 300000\<rparr>"

definition videoRequest :: "string option \<Rightarrow> GenerationJobData \<Rightarrow> http_request" where
  "videoRequest base d =
     \<lparr>url = serviceUrl base ''/generate/video'',
      body = JObj ([(''prompt'', JStr (prompt d)), (''style'', style d)] @
                   (case audioTrackId d of None \<Rightarrow> [] | Some a \<Rightarrow> [(''audioTrackId'', JStr a)]) @
                   [(''outputId'', JStr (outputId d))]),
      timeout = 600000\<rparr>"

text \<open>The \<open>data\<close> of the update that stores a result.\<close>

definition completedData :: "backend_response \<Rightarrow> int \<Rightarrow> GeneratedOutput \<Rightarrow> GeneratedOutput" where
  "completedData resp ptime r =
     r\<lparr>status := COMPLETED,
       filePath := Some (r_filePath resp),
       thumbnailPath := Some (r_thumbnailPath resp),
       processingTime := Some ptime,
       metadata := Some (r_metadata resp)\<rparr>"

text \<open>
  The body shared by \<open>processImageGeneration\<close> and \<open>processVideoGeneration\<close>, which
  differ in the request and in the action logged: mark PROCESSING, call the AI service,
  store the result, log the usage. The \<open>catch\<close> logs and rethrows, so the first
  rejection ends the attempt with that error.
\<close>

definition processGeneration ::
  "http_request \<Rightarrow> string \<Rightarrow> attempt_env \<Rightarrow> GenerationJobData \<Rightarrow> world \<Rightarrow> outcome" where
  "processGeneration req act env d w =
     (case updateGenerationStatus (db_fault env MarkProcessing) (outputId d) PROCESSING w of
        (Inl e, w1) \<Rightarrow> (Inl e, w1)
      | (Inr _, w1) \<Rightarrow>
          (let w2 = w1\<lparr>requests := requests w1 @ [req]\<rparr> in
           case axios_post env req of
             Inl e \<Rightarrow> (Inl e, w2)
           | Inr resp \<Rightarrow>
               (let ptime = processingSeconds (startTime env) (endTime env) in
                case generatedOutput_update (db_fault env StoreResult) (outputId d)
                       (completedData resp ptime) w2 of
                  (Inl e, w3) \<Rightarrow> (Inl e, w3)
                | (Inr _, w3) \<Rightarrow>
                    logUsage (db_fault env LogUsage) (userId d) act ptime (r_metadata resp) w3)))"

definition processImageGeneration :: "attempt_env \<Rightarrow> GenerationJobData \<Rightarrow> world \<Rightarrow> outcome" where
  "processImageGeneration env d w =
     processGeneration (imageRequest (AI_SERVICE_URL env) d) ''generate_image'' env d w"

definition processVideoGeneration :: "attempt_env \<Rightarrow> GenerationJobData \<Rightarrow> world \<Rightarrow> outcome" where
  "processVideoGeneration env d w =
     processGeneration (videoRequest (AI_SERVICE_URL env) d) ''generate_video'' env d w"

subsection \<open>The workers' event handlers\<close>

definition completedPayload :: "ContentType \<Rightarrow> GenerationJobData \<Rightarrow> json" where
  "completedPayload t d =
     JObj [(''outputId'', JStr (outputId d)), (''type'', JStr (ContentType_str t)),
           (''status'', JStr ''COMPLETED'')]"

definition imageWorker_completed :: "GenerationJobData \<Rightarrow> world \<Rightarrow> world" where
  "imageWorker_completed d w = notifyUser (userId d) ''generation-complete'' (completedPayload IMAGE d) w"

definition videoWorker_completed :: "GenerationJobData \<Rightarrow> world \<Rightarrow> world" where
  "videoWorker_completed d w = notifyUser (userId d) ''generation-complete'' (completedPayload VIDEO d) w"

text \<open>
  Both \<open>failed\<close> handlers have the same body. The library passes \<open>undefined\<close> for the job
  when the job is gone (\<open>None\<close>); then the handler only logs.
\<close>

definition worker_failed ::
  "error option \<Rightarrow> GenerationJobData option \<Rightarrow> error \<Rightarrow> world \<Rightarrow> outcome" where
  "worker_failed fault job err w =
     (case job of
        None \<Rightarrow> (Inr (), w)
      | Some d \<Rightarrow> handleJobFailure fault d (message err) w)"

subsection \<open>Module state, set-up and the dispatcher\<close>

text \<open>
  The options a queue is created with, the options a job carries (the queue's defaults
  overridden by the options given to \<open>add\<close>), and a worker's options.
\<close>

datatype BackoffType = Fixed | Exponential

record Backoff =
  btype :: BackoffType
  delay :: nat

record DefaultJobOptions =
  removeOnComplete :: nat
  removeOnFail :: nat
  attempts :: nat
  backoff :: Backoff

record Queue =
  qname :: string
  defaultJobOptions :: DefaultJobOptions

record Job =
  job_name :: string
  data :: GenerationJobData
  opts :: DefaultJobOptions
  priority :: nat

record Worker =
  w_queue :: string
  w_processor :: ContentType
  concurrency :: nat

record Redis =
  redis_url :: string

text \<open>
  The module-level handles \<open>redis\<close> (of \<open>utils/redis.ts\<close>), \<open>imageQueue\<close> and
  \<open>videoQueue\<close>, which are \<open>undefined\<close> (\<open>None\<close>) until assigned, the workers
  constructed so far, and the jobs the queue store holds under each queue name.
\<close>

record service =
  redis :: "Redis option"
  imageQueue :: "Queue option"
  videoQueue :: "Queue option"
  workers :: "Worker list"
  waiting :: "string \<Rightarrow> Job list"

definition initial_service :: service where
  "initial_service =
     \<lparr>redis = None, imageQueue = None, videoQueue = None, workers = [],
      waiting = (\<lambda>_. [])\<rparr>"

text \<open>
  \<open>setupRedis\<close>: the handle is assigned before \<open>connect\<close> is awaited, so it stays
  assigned when \<open>connect\<close> rejects (\<open>connect_error\<close>) and the error is rethrown.
\<close>

definition setupRedis ::
  "string option \<Rightarrow> error option \<Rightarrow> service \<Rightarrow> (error + Redis) \<times> service" where
  "setupRedis REDIS_URL connect_error m =
     (let r = \<lparr>redis_url = (case REDIS_URL of
                               None \<Rightarrow> ''redis://localhost:6379''
                             | Some u \<Rightarrow> if u = [] then ''redis://localhost:6379'' else u)\<rparr>;
          m1 = m\<lparr>redis := Some r\<rparr>
      in case connect_error of Some e \<Rightarrow> (Inl e, m1) | None \<Rightarrow> (Inr r, m1))"

definition getRedis :: "service \<Rightarrow> error + Redis" where
  "getRedis m =
     (case redis m of
        None \<Rightarrow> Inl (Error ''Redis not initialized. Call setupRedis() first.'')
      | Some r \<Rightarrow> Inr r)"

definition imageQueueOptions :: DefaultJobOptions where
  "imageQueueOptions =
     \<lparr>removeOnComplete = 10, removeOnFail = 20, attempts = 3,
      backoff = \<lparr>btype = Exponential, delay = 2000\<rparr>\<rparr>"

definition videoQueueOptions :: DefaultJobOptions where
  "videoQueueOptions =
     \<lparr>removeOnComplete = 5, removeOnFail = 10, attempts = 2,
      backoff = \<lparr>btype = Exponential, delay = 5000\<rparr>\<rparr>"

text \<open>
  \<open>setupQueues\<close> has no \<open>await\<close>: it runs to its end when called. Its first statement
  is \<open>getRedis()\<close>, whose exception rejects the returned promise before anything is
  assigned.
\<close>

definition setupQueues :: "service \<Rightarrow> (error + unit) \<times> service" where
  "setupQueues m =
     (case getRedis m of
        Inl e \<Rightarrow> (Inl e, m)
      | Inr r \<Rightarrow>
          (Inr (),
           m\<lparr>imageQueue := Some \<lparr>qname = ''image-generation'', defaultJobOptions = imageQueueOptions\<rparr>,
             videoQueue := Some \<lparr>qname = ''video-generation'', defaultJobOptions = videoQueueOptions\<rparr>,
             workers := workers m @
               [\<lparr>w_queue = ''image-generation'', w_processor = IMAGE, concurrency = 2\<rparr>,
                \<lparr>w_queue = ''video-generation'', w_processor = VIDEO, concurrency = 1\<rparr>]\<rparr>))"

text \<open>
  \<open>queue.add(name, data, {priority})\<close>: the job gets the queue's default options and the
  given priority and is stored under the queue's name. The data is stored as given.
\<close>

definition Queue_add ::
  "Queue \<Rightarrow> string \<Rightarrow> GenerationJobData \<Rightarrow> nat \<Rightarrow> service \<Rightarrow> (error + Job) \<times> service" where
  "Queue_add q name d prio m =
     (let j = \<lparr>job_name = name, data = d, opts = defaultJobOptions q, priority = prio\<rparr>
      in (Inr j, m\<lparr>waiting := (waiting m)(qname q := waiting m (qname q) @ [j])\<rparr>))"

text \<open>
  The dispatcher. Reading \<open>add\<close> from a handle that is still \<open>undefined\<close> throws a
  \<open>TypeError\<close>.
\<close>

definition undefined_add :: error where
  "undefined_add = TypeError ''Cannot read properties of undefined (reading add)''"

definition addImageGenerationJob ::
  "GenerationJobData \<Rightarrow> service \<Rightarrow> (error + Job) \<times> service" where
  "addImageGenerationJob d m =
     (case imageQueue m of
        None \<Rightarrow> (Inl undefined_add, m)
      | Some q \<Rightarrow> Queue_add q ''generate-image'' d 10 m)"

definition addVideoGenerationJob ::
  "GenerationJobData \<Rightarrow> service \<Rightarrow> (error + Job) \<times> service" where
  "addVideoGenerationJob d m =
     (case videoQueue m of
        None \<Rightarrow> (Inl undefined_add, m)
      | Some q \<Rightarrow> Queue_add q ''generate-video'' d 5 m)"

subsection \<open>A worker running one job\<close>

text \<open>
  The job library is a dependency, not part of the service; this is what its worker does
  with one job, as its documentation describes it. The processor is called once per
  attempt. When it resolves, the worker emits \<open>completed\<close>. When it rejects, the worker
  emits \<open>failed\<close> with the job and the error (the event "is triggered when a job has
  thrown an exception", at every attempt) and, while fewer attempts were made than the
  job's \<open>attempts\<close> option allows, runs the job again after the backoff delay. A handler
  is an event listener: the worker does not wait for it and does not see its rejection.

  \<open>envs i\<close> is the environment of attempt \<open>i\<close> (from 0), \<open>made\<close> the attempts made
  before this one and \<open>left\<close> the retries left after it.
\<close>

datatype job_state = JobCompleted | JobFailed

record job_run =
  finished :: job_state
  attemptsMade :: nat
  final :: world

fun runAttempts ::
  "(attempt_env \<Rightarrow> GenerationJobData \<Rightarrow> world \<Rightarrow> outcome) \<Rightarrow>
   (GenerationJobData \<Rightarrow> world \<Rightarrow> world) \<Rightarrow>
   GenerationJobData \<Rightarrow> (nat \<Rightarrow> attempt_env) \<Rightarrow> nat \<Rightarrow> nat \<Rightarrow> world \<Rightarrow> job_run" where
  "runAttempts process completed d envs made 0 w =
     (case process (envs made) d w of
        (Inr _, w1) \<Rightarrow>
          \<lparr>finished = JobCompleted, attemptsMade = Suc made, final = completed d w1\<rparr>
      | (Inl err, w1) \<Rightarrow>
          \<lparr>finished = JobFailed, attemptsMade = Suc made,
           final = snd (worker_failed (db_fault (envs made) MarkFailed) (Some d) err w1)\<rparr>)"
| "runAttempts process completed d envs made (Suc left) w =
     (case process (envs made) d w of
        (Inr _, w1) \<Rightarrow>
          \<lparr>finished = JobCompleted, attemptsMade = Suc made, final = completed d w1\<rparr>
      | (Inl err, w1) \<Rightarrow>
          runAttempts process completed d envs (Suc made) left
            (snd (worker_failed (db_fault (envs made) MarkFailed) (Some d) err w1)))"

text \<open>
  The image worker is constructed with \<open>processImageGeneration\<close> and given the image
  \<open>completed\<close> handler, the video worker likewise; a job runs with the \<open>attempts\<close> of
  its options (an option of 0 still gives one attempt).
\<close>

fun processorOf :: "ContentType \<Rightarrow> attempt_env \<Rightarrow> GenerationJobData \<Rightarrow> world \<Rightarrow> outcome" where
  "processorOf IMAGE = processImageGeneration"
| "processorOf VIDEO = processVideoGeneration"

fun completedOf :: "ContentType \<Rightarrow> GenerationJobData \<Rightarrow> world \<Rightarrow> world" where
  "completedOf IMAGE = imageWorker_completed"
| "completedOf VIDEO = videoWorker_completed"

definition workerRun :: "ContentType \<Rightarrow> Job \<Rightarrow> (nat \<Rightarrow> attempt_env) \<Rightarrow> world \<Rightarrow> job_run" where
  "workerRun t j envs w =
     runAttempts (processorOf t) (completedOf t) (data j) envs 0 (attempts (opts j) - 1) w"

subsection \<open>Vocabulary of the properties\<close>

text \<open>The request and the logged action of a worker's processor.\<close>

fun requestOf :: "ContentType \<Rightarrow> string option \<Rightarrow> GenerationJobData \<Rightarrow> http_request" where
  "requestOf IMAGE = imageRequest"
| "requestOf VIDEO = videoRequest"

fun actionOf :: "ContentType \<Rightarrow> string" where
  "actionOf IMAGE = ''generate_image''"
| "actionOf VIDEO = ''generate_video''"

text \<open>The order \<open>PENDING \<rightarrow> PROCESSING \<rightarrow> {COMPLETED | FAILED}\<close> and its terminal states.\<close>

fun status_rank :: "GenerationStatus \<Rightarrow> nat" where
  "status_rank PENDING = 0"
| "status_rank PROCESSING = 1"
| "status_rank COMPLETED = 2"
| "status_rank FAILED = 2"

fun terminal :: "GenerationStatus \<Rightarrow> bool" where
  "terminal COMPLETED = True"
| "terminal FAILED = True"
| "terminal _ = False"

text \<open>The status of the row with a given id, if there is one.\<close>

definition status_at :: "world \<Rightarrow> string \<Rightarrow> GenerationStatus option" where
  "status_at w oid = map_option status (outputs w oid)"

text \<open>The two socket events, as the handlers build them.\<close>

definition completeEvent :: "ContentType \<Rightarrow> GenerationJobData \<Rightarrow> emission" where
  "completeEvent t d =
     \<lparr>room = ''user-'' @ userId d, event = ''generation-complete'',
      payload = JObj [(''outputId'', JStr (outputId d)), (''type'', JStr (ContentType_str t)),
                      (''status'', JStr ''COMPLETED'')]\<rparr>"

definition failedEvent :: "GenerationJobData \<Rightarrow> string \<Rightarrow> emission" where
  "failedEvent d msg =
     \<lparr>room = ''user-'' @ userId d, event = ''generation-failed'',
      payload = JObj [(''outputId'', JStr (outputId d)),
                      (''type'', JStr (ContentType_str (jtype d))),
                      (''error'', JStr msg)]\<rparr>"


definition backend_fails :: "ContentType \<Rightarrow> attempt_env \<Rightarrow> GenerationJobData \<Rightarrow> error \<Rightarrow> bool" where
  "backend_fails t env d e \<longleftrightarrow>
     db_fault env MarkProcessing = None \<and>
     axios_post env (requestOf t (AI_SERVICE_URL env) d) = Inl e \<and>
     db_fault env MarkFailed = None"

text \<open>
  The world \<open>w\<close>, whose row of the job was \<open>r\<close>, after the attempts \<open>a, \<dots>, b - 1\<close>
  each failed at the AI service call with error \<open>errs i\<close> and were each followed by
  the failure handler.
\<close>

definition after_failures ::
  "ContentType \<Rightarrow> GenerationJobData \<Rightarrow> (nat \<Rightarrow> attempt_env) \<Rightarrow> (nat \<Rightarrow> error) \<Rightarrow>
   nat \<Rightarrow> nat \<Rightarrow> GeneratedOutput \<Rightarrow> world \<Rightarrow> world" where
  "after_failures t d envs errs a b r w =
     w\<lparr>outputs := (outputs w)(outputId d \<mapsto>
                      r\<lparr>status := FAILED, errorMessage := Some (message (errs (b - 1)))\<rparr>),
       requests := requests w @ map (\<lambda>i. requestOf t (AI_SERVICE_URL (envs i)) d) [a..<b],
       emitted := emitted w @ map (\<lambda>i. failedEvent d (message (errs i))) [a..<b]\<rparr>"

subsection \<open>Concrete inputs\<close>

definition job1 :: GenerationJobData where
  "job1 = \<lparr>userId = ''u1'', promptId = ''p1'', outputId = ''o1'', jtype = IMAGE,
           prompt = ''cat'', style = JObj [], audioTrackId = None\<rparr>"

definition row1 :: GeneratedOutput where
  "row1 = \<lparr>o_id = ''o1'', o_userId = ''u1'', o_promptId = ''p1'', o_type = IMAGE,
           status = PENDING, filePath = None, thumbnailPath = None, metadata = None,
           processingTime = None, errorMessage = None\<rparr>"

definition world1 :: world where
  "world1 = \<lparr>outputs = [''o1'' \<mapsto> row1], usageLogs = [], emitted = [], requests = []\<rparr>"

definition world_empty :: world where
  "world_empty = \<lparr>outputs = Map.empty, usageLogs = [], emitted = [], requests = []\<rparr>"

definition resp1 :: backend_response where
  "resp1 = \<lparr>r_filePath = ''/f.png'', r_thumbnailPath = ''/t.png'',
            r_metadata = JObj [(''w'', JNum 512), (''h'', JNum 512)]\<rparr>"

text \<open>An attempt whose AI service call succeeds after 1500 ms, and one whose call times out.\<close>

definition env_ok :: attempt_env where
  "env_ok = \<lparr>AI_SERVICE_URL = Some ''http://ai:8000'', axios_post = (\<lambda>_. Inr resp1),
             startTime = 1000, endTime = 2500, db_fault = (\<lambda>_. None)\<rparr>"

definition env_timeout :: attempt_env where
  "env_timeout = \<lparr>AI_SERVICE_URL = Some ''http://ai:8000'',
                  axios_post = (\<lambda>r. Inl (AxiosError ''timeout of 300000ms exceeded'')),
                  startTime = 1000, endTime = 301000, db_fault = (\<lambda>_. None)\<rparr>"

definition job2 :: GenerationJobData where
  "job2 = \<lparr>userId = ''u2'', promptId = ''p2'', outputId = ''o2'', jtype = VIDEO,
           prompt = ''dog'', style = JObj [], audioTrackId = Some ''a1''\<rparr>"

definition world_completed :: world where
  "world_completed = snd (processImageGeneration env_ok job1 world1)"

definition world_processing :: world where
  "world_processing = snd (processImageGeneration env_timeout job1 world1)"

definition timeout_error :: error where
  "timeout_error = AxiosError ''timeout of 300000ms exceeded''"

text \<open>
  The job \<open>addImageGenerationJob job1\<close> creates, the world after its first attempt timed
  out and was handled, and two series of attempts: every call times out; the first call
  times out and the second succeeds.
\<close>

definition image_job1 :: Job where
  "image_job1 = \<lparr>job_name = ''generate-image'', data = job1, opts = imageQueueOptions, priority = 10\<rparr>"

definition world_after_first :: world where
  "world_after_first = snd (worker_failed None (Some job1) timeout_error world_processing)"

definition envs_timeout :: "nat \<Rightarrow> attempt_env" where
  "envs_timeout i = env_timeout"





definition service_ready :: service where
  "service_ready = snd (setupQueues (snd (setupRedis None None initial_service)))"

section \<open>Properties\<close>

subsection \<open>Rounding of the processing time\<close>


lemma processingSeconds_near:
  "\<bar>1000 * processingSeconds s e - (e - s)\<bar> \<le> 500"
proof -
  define x where "x = e - s + 500"
  have "x = 1000 * (x div 1000) + x mod 1000" by simp
  moreover have "0 \<le> x mod 1000" "x mod 1000 < 1000" by simp_all
  ultimately show ?thesis
    unfolding processingSeconds_def x_def by linarith
qed

subsection \<open>Configuration\<close>

lemma setupQueues_ready:
  "redis m = Some r \<Longrightarrow>
   setupQueues m =
     (Inr (),
      m\<lparr>imageQueue := Some \<lparr>qname = ''image-generation'', defaultJobOptions = imageQueueOptions\<rparr>,
        videoQueue := Some \<lparr>qname = ''video-generation'', defaultJobOptions = videoQueueOptions\<rparr>,
        workers := workers m @
          [\<lparr>w_queue = ''image-generation'', w_processor = IMAGE, concurrency = 2\<rparr>,
           \<lparr>w_queue = ''video-generation'', w_processor = VIDEO, concurrency = 1\<rparr>]\<rparr>)"
  by (simp add: setupQueues_def getRedis_def)

lemma process_sends_request:
  assumes "outputs w (outputId d) = Some row" and "db_fault env MarkProcessing = None"
  shows "requests (snd (processGeneration req act env d w)) = requests w @ [req]"
  using assms
  by (auto simp: processGeneration_def updateGenerationStatus_def generatedOutput_update_def
      logUsage_def Let_def split: sum.splits option.splits prod.splits)

text \<open>
  C5. Once the Redis handle is set, \<open>setupQueues\<close> creates the image queue with 3
  attempts and exponential backoff of 2 seconds (2000 ms) and the video queue with 2
  attempts and exponential backoff of 5 seconds; and the request an attempt sends to the
  AI service (the row exists, the database accepts the PROCESSING update) carries a
  timeout of 300 seconds for an image and of 600 seconds for a video.
\<close>

theorem fixed_configuration:
  assumes "redis m = Some r"
    and "outputs w (outputId d) = Some row"
    and "db_fault env MarkProcessing = None"
  shows "(\<exists>qi qv. fst (setupQueues m) = Inr () \<and>
            imageQueue (snd (setupQueues m)) = Some qi \<and>
            videoQueue (snd (setupQueues m)) = Some qv \<and>
            attempts (defaultJobOptions qi) = 3 \<and>
            backoff (defaultJobOptions qi) = \<lparr>btype = Exponential, delay = 2 * 1000\<rparr> \<and>
            attempts (defaultJobOptions qv) = 2 \<and>
            backoff (defaultJobOptions qv) = \<lparr>btype = Exponential, delay = 5 * 1000\<rparr>) \<and>
         (\<exists>rq. requests (snd (processImageGeneration env d w)) = requests w @ [rq] \<and>
            timeout rq = 300 * 1000) \<and>
         (\<exists>rq. requests (snd (processVideoGeneration env d w)) = requests w @ [rq] \<and>
            timeout rq = 600 * 1000)"
proof -
  have q: "\<exists>qi qv. fst (setupQueues m) = Inr () \<and>
            imageQueue (snd (setupQueues m)) = Some qi \<and>
            videoQueue (snd (setupQueues m)) = Some qv \<and>
            attempts (defaultJobOptions qi) = 3 \<and>
            backoff (defaultJobOptions qi) = \<lparr>btype = Exponential, delay = 2 * 1000\<rparr> \<and>
            attempts (defaultJobOptions qv) = 2 \<and>
            backoff (defaultJobOptions qv) = \<lparr>btype = Exponential, delay = 5 * 1000\<rparr>"
    by (simp add: setupQueues_ready[OF assms(1)] imageQueueOptions_def videoQueueOptions_def)
  have i: "\<exists>rq. requests (snd (processImageGeneration env d w)) = requests w @ [rq] \<and>
            timeout rq = 300 * 1000"
    unfolding processImageGeneration_def
    by (simp add: process_sends_request[OF assms(2,3)] imageRequest_def)
  have v: "\<exists>rq. requests (snd (processVideoGeneration env d w)) = requests w @ [rq] \<and>
            timeout rq = 600 * 1000"
    unfolding processVideoGeneration_def
    by (simp add: process_sends_request[OF assms(2,3)] videoRequest_def)
  from q i v show ?thesis by blast
qed

theorem fixed_configuration_witness:
  "(\<exists>qi qv. fst (setupQueues (snd (setupRedis None None initial_service))) = Inr () \<and>
      imageQueue (snd (setupQueues (snd (setupRedis None None initial_service)))) = Some qi \<and>
      videoQueue (snd (setupQueues (snd (setupRedis None None initial_service)))) = Some qv \<and>
      attempts (defaultJobOptions qi) = 3 \<and>
      backoff (defaultJobOptions qi) = \<lparr>btype = Exponential, delay = 2 * 1000\<rparr> \<and>
      attempts (defaultJobOptions qv) = 2 \<and>
      backoff (defaultJobOptions qv) = \<lparr>btype = Exponential, delay = 5 * 1000\<rparr>) \<and>
   (\<exists>rq. requests (snd (processImageGeneration env_ok job1 world1)) = requests world1 @ [rq] \<and>
      timeout rq = 300 * 1000) \<and>
   (\<exists>rq. requests (snd (processVideoGeneration env_ok job1 world1)) = requests world1 @ [rq] \<and>
      timeout rq = 600 * 1000)"
proof -
  have a: "redis (snd (setupRedis None None initial_service)) =
             Some \<lparr>redis_url = ''redis://localhost:6379''\<rparr>"
    by (simp add: setupRedis_def initial_service_def Let_def)
  have b: "outputs world1 (outputId job1) = Some row1"
    by (simp add: world1_def job1_def)
  have c: "db_fault env_ok MarkProcessing = None"
    by (simp add: env_ok_def)
  show ?thesis by (rule fixed_configuration[OF a b c])
qed

lemma dispatcher_options:
  assumes "imageQueue m = Some qi" and "videoQueue m = Some qv"
  shows "\<exists>ji jv mi mv.
           addImageGenerationJob d m = (Inr ji, mi) \<and> priority ji = 10 \<and>
           job_name ji = ''generate-image'' \<and> opts ji = defaultJobOptions qi \<and>
           addVideoGenerationJob d m = (Inr jv, mv) \<and> priority jv = 5 \<and>
           job_name jv = ''generate-video'' \<and> opts jv = defaultJobOptions qv"
  using assms
  by (simp add: addImageGenerationJob_def addVideoGenerationJob_def Queue_add_def Let_def)

lemma image_job1_dispatched:
  "fst (addImageGenerationJob job1 service_ready) = Inr image_job1"
  by (simp add: addImageGenerationJob_def Queue_add_def Let_def service_ready_def setupQueues_def
      getRedis_def setupRedis_def initial_service_def image_job1_def)

subsection \<open>Dispatch before set-up\<close>

text \<open>
  C9. While the image (video) queue handle is unassigned, \<open>addImageGenerationJob\<close>
  (\<open>addVideoGenerationJob\<close>) throws and leaves the service, and so the stored jobs,
  as they were; while the Redis handle is unassigned, \<open>setupQueues\<close> fails with the
  error of \<open>getRedis\<close> and assigns nothing, so that the dispatcher still throws after
  it. All three hold in the state the modules are loaded in.
\<close>

theorem dispatch_before_setup:
  "(imageQueue m = None \<longrightarrow> addImageGenerationJob d m = (Inl undefined_add, m)) \<and>
   (videoQueue m = None \<longrightarrow> addVideoGenerationJob d m = (Inl undefined_add, m)) \<and>
   (redis m = None \<longrightarrow>
      setupQueues m = (Inl (Error ''Redis not initialized. Call setupRedis() first.''), m)) \<and>
   addImageGenerationJob d initial_service = (Inl undefined_add, initial_service) \<and>
   addVideoGenerationJob d initial_service = (Inl undefined_add, initial_service) \<and>
   setupQueues initial_service =
     (Inl (Error ''Redis not initialized. Call setupRedis() first.''), initial_service) \<and>
   addImageGenerationJob d (snd (setupQueues initial_service)) =
     (Inl undefined_add, initial_service) \<and>
   addVideoGenerationJob d (snd (setupQueues initial_service)) =
     (Inl undefined_add, initial_service)"
  by (simp add: addImageGenerationJob_def addVideoGenerationJob_def setupQueues_def getRedis_def
      initial_service_def)

theorem dispatch_before_setup_witness:
  "imageQueue initial_service = None \<and> videoQueue initial_service = None \<and>
   redis initial_service = None \<and>
   fst (addImageGenerationJob job1 initial_service) = Inl undefined_add \<and>
   waiting (snd (addImageGenerationJob job1 initial_service)) ''image-generation'' = [] \<and>
   fst (addVideoGenerationJob job1 initial_service) = Inl undefined_add \<and>
   waiting (snd (addVideoGenerationJob job1 initial_service)) ''video-generation'' = [] \<and>
   fst (setupQueues initial_service) =
     Inl (Error ''Redis not initialized. Call setupRedis() first.'')"
  using dispatch_before_setup[of initial_service job1]
  by (simp add: initial_service_def)

subsection \<open>Single operations\<close>

lemma update_ok:
  "outputs w oid = Some r \<Longrightarrow>
   generatedOutput_update None oid upd w = (Inr (), w\<lparr>outputs := (outputs w)(oid \<mapsto> upd r)\<rparr>)"
  by (simp add: generatedOutput_update_def)

lemma update_fault: "generatedOutput_update (Some e) oid upd w = (Inl e, w)"
  by (simp add: generatedOutput_update_def)

lemma update_missing:
  "outputs w oid = None \<Longrightarrow>
   generatedOutput_update None oid upd w = (Inl (PrismaError ''Record to update not found.''), w)"
  by (simp add: generatedOutput_update_def)

lemma update_cases:
  assumes "outputs w oid = Some r"
  shows "(\<exists>e. generatedOutput_update fault oid upd w = (Inl e, w)) \<or>
         generatedOutput_update fault oid upd w = (Inr (), w\<lparr>outputs := (outputs w)(oid \<mapsto> upd r)\<rparr>)"
  using assms by (cases fault) (simp_all add: generatedOutput_update_def)

lemma handleJobFailure_ok:
  assumes "outputs w (outputId d) = Some r"
  shows "handleJobFailure None d msg w =
     (Inr (), w\<lparr>outputs := (outputs w)(outputId d \<mapsto> r\<lparr>status := FAILED, errorMessage := Some msg\<rparr>),
               emitted := emitted w @ [failedEvent d msg]\<rparr>)"
  by (simp add: handleJobFailure_def update_ok[OF assms] notifyUser_def failedEvent_def)

lemma handleJobFailure_fault: "handleJobFailure (Some e) d msg w = (Inl e, w)"
  by (simp add: handleJobFailure_def update_fault)

lemma handleJobFailure_missing:
  "outputs w (outputId d) = None \<Longrightarrow>
   handleJobFailure None d msg w = (Inl (PrismaError ''Record to update not found.''), w)"
  by (simp add: handleJobFailure_def update_missing)

lemma completed_emits: "completedOf t d w = w\<lparr>emitted := emitted w @ [completeEvent t d]\<rparr>"
  by (cases t)
     (simp_all add: imageWorker_completed_def videoWorker_completed_def notifyUser_def
        completedPayload_def completeEvent_def)

lemma process_result:
  assumes "outputs w (outputId d) = Some r"
  shows "processGeneration req act env d w =
     (case db_fault env MarkProcessing of
        Some e \<Rightarrow> (Inl e, w)
      | None \<Rightarrow>
          (case axios_post env req of
             Inl e \<Rightarrow>
               (Inl e, w\<lparr>outputs := (outputs w)(outputId d \<mapsto> r\<lparr>status := PROCESSING\<rparr>),
                         requests := requests w @ [req]\<rparr>)
           | Inr resp \<Rightarrow>
               (case db_fault env StoreResult of
                  Some e \<Rightarrow>
                    (Inl e, w\<lparr>outputs := (outputs w)(outputId d \<mapsto> r\<lparr>status := PROCESSING\<rparr>),
                              requests := requests w @ [req]\<rparr>)
                | None \<Rightarrow>
                    (case db_fault env LogUsage of
                       Some e \<Rightarrow>
                         (Inl e,
                          w\<lparr>outputs := (outputs w)(outputId d \<mapsto>
                               completedData resp (processingSeconds (startTime env) (endTime env))
                                 (r\<lparr>status := PROCESSING\<rparr>)),
                            requests := requests w @ [req]\<rparr>)
                     | None \<Rightarrow>
                         (Inr (),
                          w\<lparr>outputs := (outputs w)(outputId d \<mapsto>
                               completedData resp (processingSeconds (startTime env) (endTime env))
                                 (r\<lparr>status := PROCESSING\<rparr>)),
                            requests := requests w @ [req],
                            usageLogs := usageLogs w @
                              [\<lparr>l_userId = userId d, action = act,
                                l_processingTime = processingSeconds (startTime env) (endTime env),
                                l_metadata = r_metadata resp\<rparr>]\<rparr>)))))"
  using assms
  by (simp add: processGeneration_def updateGenerationStatus_def generatedOutput_update_def
      logUsage_def Let_def split: option.splits sum.splits)

lemma processorOf_eq:
  "processorOf t env d w = processGeneration (requestOf t (AI_SERVICE_URL env) d) (actionOf t) env d w"
  by (cases t) (simp_all add: processImageGeneration_def processVideoGeneration_def)

lemma process_status:
  assumes "outputs w (outputId d) = Some r"
  shows "status_at (snd (processGeneration req act env d w)) (outputId d)
           \<in> {Some (status r), Some PROCESSING, Some COMPLETED}"
  using assms
  by (auto simp: process_result[OF assms] status_at_def completedData_def
      split: option.splits sum.splits)

lemma worker_failed_status:
  assumes "outputs w (outputId d) = Some r"
  shows "status_at (snd (worker_failed fault (Some d) err w)) (outputId d)
           \<in> {Some (status r), Some FAILED}"
proof (cases fault)
  case None
  then show ?thesis
    by (simp add: worker_failed_def handleJobFailure_ok[OF assms] status_at_def)
next
  case (Some e)
  then show ?thesis
    using assms by (simp add: worker_failed_def handleJobFailure_fault status_at_def)
qed

lemma rank_forward:
  "\<not> terminal s \<Longrightarrow> x \<in> {Some s, Some PROCESSING, Some COMPLETED, Some FAILED} \<Longrightarrow>
   \<exists>s'. x = Some s' \<and> status_rank s \<le> status_rank s'"
  by (cases s) auto

lemma world_processing_eq:
  "world_processing =
     \<lparr>outputs = [''o1'' \<mapsto> row1\<lparr>status := PROCESSING\<rparr>], usageLogs = [], emitted = [],
      requests = [imageRequest (Some ''http://ai:8000'') job1]\<rparr>"
  by (simp add: world_processing_def processImageGeneration_def processGeneration_def
      updateGenerationStatus_def generatedOutput_update_def env_timeout_def world1_def job1_def
      Let_def)

lemma world_completed_eq:
  "world_completed =
     \<lparr>outputs = [''o1'' \<mapsto> completedData resp1 2 (row1\<lparr>status := PROCESSING\<rparr>)],
      usageLogs = [\<lparr>l_userId = ''u1'', action = ''generate_image'', l_processingTime = 2,
                    l_metadata = r_metadata resp1\<rparr>],
      emitted = [],
      requests = [imageRequest (Some ''http://ai:8000'') job1]\<rparr>"
  by (simp add: world_completed_def processImageGeneration_def processGeneration_def
      updateGenerationStatus_def generatedOutput_update_def logUsage_def env_ok_def world1_def
      job1_def processingSeconds_def Let_def)

subsection \<open>The type reported on completion\<close>

text \<open>
  C10. The dispatcher stores the job data as given, whatever its \<open>type\<close> field says: the
  job returned and stored carries exactly that data. The \<open>completed\<close> handler of the
  image worker reports \<open>type: 'IMAGE'\<close> and that of the video worker \<open>type: 'VIDEO'\<close>,
  for every job data, so also for data whose own \<open>type\<close> names the other queue.
\<close>

theorem completion_type_from_queue:
  "(imageQueue m = Some q \<longrightarrow>
      (\<exists>j. addImageGenerationJob d m =
              (Inr j, m\<lparr>waiting := (waiting m)(qname q := waiting m (qname q) @ [j])\<rparr>) \<and>
            data j = d)) \<and>
   (videoQueue m = Some q \<longrightarrow>
      (\<exists>j. addVideoGenerationJob d m =
              (Inr j, m\<lparr>waiting := (waiting m)(qname q := waiting m (qname q) @ [j])\<rparr>) \<and>
            data j = d)) \<and>
   emitted (imageWorker_completed d w) =
     emitted w @ [\<lparr>room = ''user-'' @ userId d, event = ''generation-complete'',
                   payload = JObj [(''outputId'', JStr (outputId d)), (''type'', JStr ''IMAGE''),
                                   (''status'', JStr ''COMPLETED'')]\<rparr>] \<and>
   emitted (videoWorker_completed d w) =
     emitted w @ [\<lparr>room = ''user-'' @ userId d, event = ''generation-complete'',
                   payload = JObj [(''outputId'', JStr (outputId d)), (''type'', JStr ''VIDEO''),
                                   (''status'', JStr ''COMPLETED'')]\<rparr>]"
  by (simp add: addImageGenerationJob_def addVideoGenerationJob_def Queue_add_def Let_def
      imageWorker_completed_def videoWorker_completed_def notifyUser_def completedPayload_def)

lemma service_ready_image:
  "imageQueue service_ready = Some \<lparr>qname = ''image-generation'', defaultJobOptions = imageQueueOptions\<rparr>"
  by (simp add: service_ready_def setupQueues_def getRedis_def setupRedis_def Let_def
      initial_service_def)

theorem completion_type_from_queue_witness:
  "jtype job2 = VIDEO \<and>
   (\<exists>j. fst (addImageGenerationJob job2 service_ready) = Inr j \<and> data j = job2) \<and>
   emitted (imageWorker_completed job2 world1) =
     [\<lparr>room = ''user-u2'', event = ''generation-complete'',
       payload = JObj [(''outputId'', JStr ''o2''), (''type'', JStr ''IMAGE''),
                       (''status'', JStr ''COMPLETED'')]\<rparr>]"
  using completion_type_from_queue[of service_ready
      "\<lparr>qname = ''image-generation'', defaultJobOptions = imageQueueOptions\<rparr>" job2 world1]
    service_ready_image
  by (auto simp: job2_def world1_def)

subsection \<open>The failure handler\<close>

text \<open>
  C7, as stated, fails: a \<open>failed\<close> event that carries no job is only logged. The row
  stays PROCESSING and nothing is emitted.
\<close>

theorem failure_without_job_counterexample:
  "status_at world_processing ''o1'' = Some PROCESSING \<and>
   worker_failed None None timeout_error world_processing = (Inr (), world_processing) \<and>
   status_at (snd (worker_failed None None timeout_error world_processing)) ''o1'' = Some PROCESSING \<and>
   emitted (snd (worker_failed None None timeout_error world_processing)) = []"
  by (simp add: worker_failed_def status_at_def world_processing_eq)

text \<open>
  C7, amended. For a \<open>failed\<close> event that carries the job, with any error (from the AI
  service or from storing the result): when the row of the job's \<open>outputId\<close> exists and
  the database accepts the update, the row becomes FAILED with the error's message and
  one \<open>generation-failed\<close> event goes to the room \<open>user-{userId}\<close>. A \<open>failed\<close>
  event without a job changes nothing; when the update is rejected, or no row has the id,
  the handler itself rejects and changes nothing.
\<close>

theorem failure_handler_effect:
  "(outputs w (outputId d) = Some r \<longrightarrow>
      worker_failed None (Some d) err w =
        (Inr (),
         w\<lparr>outputs := (outputs w)(outputId d \<mapsto>
                          r\<lparr>status := FAILED, errorMessage := Some (message err)\<rparr>),
           emitted := emitted w @
             [\<lparr>room = ''user-'' @ userId d, event = ''generation-failed'',
               payload = JObj [(''outputId'', JStr (outputId d)),
                               (''type'', JStr (ContentType_str (jtype d))),
                               (''error'', JStr (message err))]\<rparr>]\<rparr>)) \<and>
   worker_failed fault None err w = (Inr (), w) \<and>
   worker_failed (Some e) (Some d) err w = (Inl e, w) \<and>
   (outputs w (outputId d) = None \<longrightarrow>
      worker_failed None (Some d) err w = (Inl (PrismaError ''Record to update not found.''), w))"
  by (simp add: worker_failed_def handleJobFailure_ok handleJobFailure_fault
      handleJobFailure_missing failedEvent_def)

theorem failure_handler_effect_witness:
  "outputs world_processing (outputId job1) = Some (row1\<lparr>status := PROCESSING\<rparr>) \<and>
   fst (worker_failed None (Some job1) timeout_error world_processing) = Inr () \<and>
   outputs (snd (worker_failed None (Some job1) timeout_error world_processing)) ''o1'' =
     Some (row1\<lparr>status := FAILED, errorMessage := Some ''timeout of 300000ms exceeded''\<rparr>) \<and>
   emitted (snd (worker_failed None (Some job1) timeout_error world_processing)) =
     [\<lparr>room = ''user-u1'', event = ''generation-failed'',
       payload = JObj [(''outputId'', JStr ''o1''), (''type'', JStr ''IMAGE''),
                       (''error'', JStr ''timeout of 300000ms exceeded'')]\<rparr>] \<and>
   outputs world_empty (outputId job1) = None \<and>
   worker_failed None (Some job1) timeout_error world_empty =
     (Inl (PrismaError ''Record to update not found.''), world_empty)"
proof -
  have a: "outputs world_processing (outputId job1) = Some (row1\<lparr>status := PROCESSING\<rparr>)"
    by (simp add: world_processing_eq job1_def)
  have b: "outputs world_empty (outputId job1) = None"
    by (simp add: world_empty_def)
  show ?thesis
    using a b
      failure_handler_effect[of world_processing job1 "row1\<lparr>status := PROCESSING\<rparr>" timeout_error]
      failure_handler_effect[of world_empty job1 row1 timeout_error]
    by (simp add: world_processing_eq job1_def timeout_error_def)
qed

subsection \<open>Events emitted by the handlers\<close>

text \<open>
  C6, as stated, fails: when the job's row is gone, the failure handler rejects at its
  update and the job ends failed with no event emitted at all.
\<close>

theorem no_event_for_missing_row_counterexample:
  "fst (worker_failed None (Some job1) timeout_error world_empty) =
     Inl (PrismaError ''Record to update not found.'') \<and>
   emitted (snd (worker_failed None (Some job1) timeout_error world_empty)) = []"
  by (simp add: worker_failed_def handleJobFailure_def generatedOutput_update_def world_empty_def)

text \<open>
  C6, amended. Each run of a handler emits at most one event, to the room
  \<open>user-{userId}\<close> of the job data: the \<open>completed\<close> handler of worker \<open>t\<close> exactly one
  \<open>generation-complete\<close> with payload \<open>{outputId, type: t, status: 'COMPLETED'}\<close>; the
  \<open>failed\<close> handler exactly one \<open>generation-failed\<close> with payload
  \<open>{outputId, type, error}\<close> when the job is given and its row is updated, and none when
  the row is missing, the update is rejected or no job is given.
\<close>

theorem one_event_per_handled_outcome:
  "emitted (completedOf t d w) =
     emitted w @ [\<lparr>room = ''user-'' @ userId d, event = ''generation-complete'',
                   payload = JObj [(''outputId'', JStr (outputId d)),
                                   (''type'', JStr (ContentType_str t)),
                                   (''status'', JStr ''COMPLETED'')]\<rparr>] \<and>
   (outputs w (outputId d) = Some r \<longrightarrow>
      emitted (snd (worker_failed None (Some d) err w)) =
        emitted w @ [\<lparr>room = ''user-'' @ userId d, event = ''generation-failed'',
                      payload = JObj [(''outputId'', JStr (outputId d)),
                                      (''type'', JStr (ContentType_str (jtype d))),
                                      (''error'', JStr (message err))]\<rparr>]) \<and>
   (outputs w (outputId d) = None \<longrightarrow>
      emitted (snd (worker_failed None (Some d) err w)) = emitted w) \<and>
   emitted (snd (worker_failed (Some e) (Some d) err w)) = emitted w \<and>
   emitted (snd (worker_failed fault None err w)) = emitted w"
  by (simp add: completed_emits completeEvent_def worker_failed_def handleJobFailure_ok
      handleJobFailure_fault handleJobFailure_missing failedEvent_def)

theorem one_event_per_handled_outcome_witness:
  "emitted (completedOf VIDEO job2 world1) =
     [\<lparr>room = ''user-u2'', event = ''generation-complete'',
       payload = JObj [(''outputId'', JStr ''o2''), (''type'', JStr ''VIDEO''),
                       (''status'', JStr ''COMPLETED'')]\<rparr>] \<and>
   outputs world1 (outputId job1) = Some row1 \<and>
   emitted (snd (worker_failed None (Some job1) timeout_error world1)) =
     [\<lparr>room = ''user-u1'', event = ''generation-failed'',
       payload = JObj [(''outputId'', JStr ''o1''), (''type'', JStr ''IMAGE''),
                       (''error'', JStr ''timeout of 300000ms exceeded'')]\<rparr>] \<and>
   outputs world1 (outputId job2) = None \<and>
   emitted (snd (worker_failed None (Some job2) timeout_error world1)) = []"
proof -
  have a: "outputs world1 (outputId job1) = Some row1"
    by (simp add: world1_def job1_def)
  have b: "outputs world1 (outputId job2) = None"
    by (simp add: world1_def job2_def)
  show ?thesis
    using a b one_event_per_handled_outcome[of VIDEO job2 world1 row1 timeout_error]
      one_event_per_handled_outcome[of IMAGE job1 world1 row1 timeout_error]
    by (simp add: world1_def job1_def job2_def timeout_error_def)
qed

subsection \<open>A job's attempts\<close>


lemma run_rejected_last:
  assumes "process (envs made) d w = (Inl e, w1)"
  shows "runAttempts process completed d envs made 0 w =
           \<lparr>finished = JobFailed, attemptsMade = Suc made,
            final = snd (worker_failed (db_fault (envs made) MarkFailed) (Some d) e w1)\<rparr>"
  using assms by simp

lemma run_rejected_retry:
  assumes "process (envs made) d w = (Inl e, w1)"
  shows "runAttempts process completed d envs made (Suc left) w =
           runAttempts process completed d envs (Suc made) left
             (snd (worker_failed (db_fault (envs made) MarkFailed) (Some d) e w1))"
  using assms by simp


lemma process_backend_fails:
  assumes "outputs w (outputId d) = Some r" and "backend_fails t env d e"
  shows "processorOf t env d w =
     (Inl e,
      w\<lparr>outputs := (outputs w)(outputId d \<mapsto> r\<lparr>status := PROCESSING\<rparr>),
        requests := requests w @ [requestOf t (AI_SERVICE_URL env) d]\<rparr>)"
  using assms(2)
  by (simp add: processorOf_eq process_result[OF assms(1)] backend_fails_def)




lemma failed_attempt_step:
  assumes "outputs w (outputId d) = Some r" and "backend_fails t (envs a) d (errs a)"
  shows "\<exists>w1. processorOf t (envs a) d w = (Inl (errs a), w1) \<and>
           snd (worker_failed (db_fault (envs a) MarkFailed) (Some d) (errs a) w1) =
             after_failures t d envs errs a (Suc a) r w"
proof -
  let ?w1 = "w\<lparr>outputs := (outputs w)(outputId d \<mapsto> r\<lparr>status := PROCESSING\<rparr>),
               requests := requests w @ [requestOf t (AI_SERVICE_URL (envs a)) d]\<rparr>"
  have p: "processorOf t (envs a) d w = (Inl (errs a), ?w1)"
    by (rule process_backend_fails[OF assms])
  have row: "outputs ?w1 (outputId d) = Some (r\<lparr>status := PROCESSING\<rparr>)"
    by simp
  have f: "db_fault (envs a) MarkFailed = None"
    using assms(2) by (simp add: backend_fails_def)
  have "snd (worker_failed None (Some d) (errs a) ?w1) = after_failures t d envs errs a (Suc a) r w"
    by (simp add: worker_failed_def handleJobFailure_ok[OF row] after_failures_def)
  with p f show ?thesis by simp
qed

lemma after_failures_row:
  "outputs (after_failures t d envs errs a b r w) (outputId d) =
     Some (r\<lparr>status := FAILED, errorMessage := Some (message (errs (b - 1)))\<rparr>)"
  by (simp add: after_failures_def)

lemma after_failures_compose:
  assumes "Suc a < b"
  shows "after_failures t d envs errs (Suc a) b
           (r\<lparr>status := FAILED, errorMessage := Some (message (errs a))\<rparr>)
           (after_failures t d envs errs a (Suc a) r w) =
         after_failures t d envs errs a b r w"
proof -
  have "[a..<b] = a # [Suc a..<b]"
    using assms by (simp add: upt_conv_Cons)
  then show ?thesis
    by (simp add: after_failures_def)
qed

lemma run_all_backend_fail:
  assumes "\<forall>i\<le>n. backend_fails t (envs (a + i)) d (errs (a + i))"
    and "outputs w (outputId d) = Some r"
  shows "runAttempts (processorOf t) (completedOf t) d envs a n w =
           \<lparr>finished = JobFailed, attemptsMade = Suc (a + n),
            final = after_failures t d envs errs a (Suc (a + n)) r w\<rparr>"
  using assms
proof (induction n arbitrary: a w r)
  case 0
  then have "backend_fails t (envs a) d (errs a)" by simp
  from failed_attempt_step[where envs=envs and errs=errs and a=a, OF "0.prems"(2) this] show ?case
    by (auto simp: run_rejected_last)
next
  case (Suc n)
  have here: "backend_fails t (envs a) d (errs a)"
    using Suc.prems(1) by (metis add.right_neutral le0)
  from failed_attempt_step[where envs=envs and errs=errs and a=a, OF Suc.prems(2) here] obtain w1 where
    p: "processorOf t (envs a) d w = (Inl (errs a), w1)" and
    h: "snd (worker_failed (db_fault (envs a) MarkFailed) (Some d) (errs a) w1) =
          after_failures t d envs errs a (Suc a) r w"
    by blast
  have rest: "\<forall>i\<le>n. backend_fails t (envs (Suc a + i)) d (errs (Suc a + i))"
  proof (intro allI impI)
    fix i assume "i \<le> n"
    then have "Suc i \<le> Suc n" by simp
    with Suc.prems(1) have "backend_fails t (envs (a + Suc i)) d (errs (a + Suc i))" by blast
    then show "backend_fails t (envs (Suc a + i)) d (errs (Suc a + i))" by simp
  qed
  have row: "outputs (after_failures t d envs errs a (Suc a) r w) (outputId d) =
               Some (r\<lparr>status := FAILED, errorMessage := Some (message (errs a))\<rparr>)"
    by (simp add: after_failures_row)
  have "runAttempts (processorOf t) (completedOf t) d envs a (Suc n) w =
          runAttempts (processorOf t) (completedOf t) d envs (Suc a) n
            (after_failures t d envs errs a (Suc a) r w)"
    using run_rejected_retry[where process="processorOf t" and envs=envs and made=a, OF p] h by simp
  also have "\<dots> = \<lparr>finished = JobFailed, attemptsMade = Suc (Suc a + n),
                    final = after_failures t d envs errs (Suc a) (Suc (Suc a + n))
                      (r\<lparr>status := FAILED, errorMessage := Some (message (errs a))\<rparr>)
                      (after_failures t d envs errs a (Suc a) r w)\<rparr>"
    by (rule Suc.IH[OF rest row])
  also have "\<dots> = \<lparr>finished = JobFailed, attemptsMade = Suc (a + Suc n),
                    final = after_failures t d envs errs a (Suc (a + Suc n)) r w\<rparr>"
    by (simp add: after_failures_compose)
  finally show ?case .
qed

lemma run_after_failures:
  assumes "\<forall>i\<le>n. backend_fails t (envs (a + i)) d (errs (a + i))"
    and "outputs w (outputId d) = Some r"
  shows "runAttempts (processorOf t) (completedOf t) d envs a (Suc (n + m)) w =
           runAttempts (processorOf t) (completedOf t) d envs (Suc (a + n)) m
             (after_failures t d envs errs a (Suc (a + n)) r w)"
  using assms
proof (induction n arbitrary: a w r)
  case 0
  then have "backend_fails t (envs a) d (errs a)" by simp
  from failed_attempt_step[where envs=envs and errs=errs and a=a, OF "0.prems"(2) this] show ?case
    by (auto simp: run_rejected_retry)
next
  case (Suc n)
  have here: "backend_fails t (envs a) d (errs a)"
    using Suc.prems(1) by (metis add.right_neutral le0)
  from failed_attempt_step[where envs=envs and errs=errs and a=a, OF Suc.prems(2) here] obtain w1 where
    p: "processorOf t (envs a) d w = (Inl (errs a), w1)" and
    h: "snd (worker_failed (db_fault (envs a) MarkFailed) (Some d) (errs a) w1) =
          after_failures t d envs errs a (Suc a) r w"
    by blast
  have rest: "\<forall>i\<le>n. backend_fails t (envs (Suc a + i)) d (errs (Suc a + i))"
  proof (intro allI impI)
    fix i assume "i \<le> n"
    then have "Suc i \<le> Suc n" by simp
    with Suc.prems(1) have "backend_fails t (envs (a + Suc i)) d (errs (a + Suc i))" by blast
    then show "backend_fails t (envs (Suc a + i)) d (errs (Suc a + i))" by simp
  qed
  have row: "outputs (after_failures t d envs errs a (Suc a) r w) (outputId d) =
               Some (r\<lparr>status := FAILED, errorMessage := Some (message (errs a))\<rparr>)"
    by (simp add: after_failures_row)
  have "runAttempts (processorOf t) (completedOf t) d envs a (Suc (Suc n + m)) w =
          runAttempts (processorOf t) (completedOf t) d envs (Suc a) (Suc (n + m))
            (after_failures t d envs errs a (Suc a) r w)"
    using run_rejected_retry[where process="processorOf t" and envs=envs and made=a, OF p] h by simp
  also have "\<dots> = runAttempts (processorOf t) (completedOf t) d envs (Suc (Suc a + n)) m
                     (after_failures t d envs errs (Suc a) (Suc (Suc a + n))
                        (r\<lparr>status := FAILED, errorMessage := Some (message (errs a))\<rparr>)
                        (after_failures t d envs errs a (Suc a) r w))"
    by (rule Suc.IH[OF rest row])
  also have "\<dots> = runAttempts (processorOf t) (completedOf t) d envs (Suc (a + Suc n)) m
                     (after_failures t d envs errs a (Suc (a + Suc n)) r w)"
    by (simp add: after_failures_compose)
  finally show ?case .
qed


lemma env_timeout_fails: "backend_fails IMAGE env_timeout job1 timeout_error"
  by (simp add: backend_fails_def env_timeout_def timeout_error_def)


lemma world1_row: "outputs world1 (outputId job1) = Some row1"
  by (simp add: world1_def job1_def)

lemma world_after_first_eq:
  "world_after_first = after_failures IMAGE job1 envs_timeout (\<lambda>_. timeout_error) 0 (Suc 0) row1 world1"
proof -
  have "backend_fails IMAGE (envs_timeout 0) job1 timeout_error"
    by (simp add: envs_timeout_def env_timeout_fails)
  from failed_attempt_step[where envs=envs_timeout and errs="\<lambda>_. timeout_error" and a=0,
      OF world1_row this]
  show ?thesis
    by (auto simp: world_after_first_def world_processing_def envs_timeout_def env_timeout_def)
qed



subsection \<open>The status order\<close>

text \<open>
  C1, as stated, fails: no operation looks at the status it overwrites. On a row that is
  already COMPLETED, the PROCESSING update at the start of an attempt (a second job for the
  same output, or a retry after the usage log rejected) makes it PROCESSING again, and the
  failure handler makes it FAILED. And within one job: after the first attempt of
  \<open>job1\<close> timed out and was handled the row is FAILED, and the second attempt makes it
  PROCESSING again.
\<close>

theorem revisits_processing_counterexample:
  "status_at world_completed ''o1'' = Some COMPLETED \<and>
   status_at (snd (updateGenerationStatus None ''o1'' PROCESSING world_completed)) ''o1'' =
     Some PROCESSING \<and>
   status_at (snd (processImageGeneration env_timeout job1 world_completed)) ''o1'' =
     Some PROCESSING \<and>
   status_at (snd (handleJobFailure None job1 ''late'' world_completed)) ''o1'' = Some FAILED \<and>
   status_at world_after_first ''o1'' = Some FAILED \<and>
   status_at (snd (processImageGeneration (envs_timeout (Suc 0)) job1 world_after_first)) ''o1'' =
     Some PROCESSING"
proof -
  have a: "status_at world_completed ''o1'' = Some COMPLETED \<and>
   status_at (snd (updateGenerationStatus None ''o1'' PROCESSING world_completed)) ''o1'' =
     Some PROCESSING \<and>
   status_at (snd (processImageGeneration env_timeout job1 world_completed)) ''o1'' =
     Some PROCESSING \<and>
   status_at (snd (handleJobFailure None job1 ''late'' world_completed)) ''o1'' = Some FAILED"
    by (simp add: status_at_def world_completed_eq processImageGeneration_def processGeneration_def
      updateGenerationStatus_def generatedOutput_update_def handleJobFailure_def notifyUser_def
      env_timeout_def job1_def completedData_def Let_def)
  have row: "outputs world_after_first (outputId job1) =
               Some (row1\<lparr>status := FAILED, errorMessage := Some (message timeout_error)\<rparr>)"
    by (simp add: world_after_first_eq after_failures_row)
  have b: "status_at world_after_first ''o1'' = Some FAILED"
    using row by (simp add: status_at_def job1_def)
  have "backend_fails IMAGE (envs_timeout (Suc 0)) job1 timeout_error"
    by (simp add: envs_timeout_def env_timeout_fails)
  from process_backend_fails[OF row this]
  have c: "status_at (snd (processImageGeneration (envs_timeout (Suc 0)) job1 world_after_first)) ''o1'' =
     Some PROCESSING"
    by (simp add: status_at_def job1_def)
  from a b c show ?thesis by blast
qed

text \<open>
  C1, amended. On an existing row each operation writes its own status, whatever the row
  held: marking PROCESSING gives PROCESSING, storing a result gives COMPLETED, the failure
  handler gives FAILED. From a status that is not terminal (PENDING or PROCESSING) a whole
  attempt of either processor and a run of the failure handler, under any environment,
  leave a status that is not earlier in the order
  \<open>PENDING \<rightarrow> PROCESSING \<rightarrow> {COMPLETED | FAILED}\<close>.
\<close>

theorem status_writes_forward:
  assumes "outputs w (outputId d) = Some r"
  shows "status_at (snd (updateGenerationStatus None (outputId d) PROCESSING w)) (outputId d) =
           Some PROCESSING \<and>
         status_at (snd (generatedOutput_update None (outputId d) (completedData resp pt) w))
           (outputId d) = Some COMPLETED \<and>
         status_at (snd (handleJobFailure None d msg w)) (outputId d) = Some FAILED \<and>
         (\<not> terminal (status r) \<longrightarrow>
            (\<exists>s'. status_at (snd (processorOf t env d w)) (outputId d) = Some s' \<and>
                  status_rank (status r) \<le> status_rank s') \<and>
            (\<exists>s'. status_at (snd (worker_failed fault (Some d) err w)) (outputId d) = Some s' \<and>
                  status_rank (status r) \<le> status_rank s'))"
proof -
  have a: "status_at (snd (updateGenerationStatus None (outputId d) PROCESSING w)) (outputId d) =
             Some PROCESSING"
    by (simp add: updateGenerationStatus_def update_ok[OF assms] status_at_def)
  have b: "status_at (snd (generatedOutput_update None (outputId d) (completedData resp pt) w))
             (outputId d) = Some COMPLETED"
    by (simp add: update_ok[OF assms] status_at_def completedData_def)
  have c: "status_at (snd (handleJobFailure None d msg w)) (outputId d) = Some FAILED"
    by (simp add: handleJobFailure_ok[OF assms] status_at_def)
  have p: "\<exists>s'. status_at (snd (processorOf t env d w)) (outputId d) = Some s' \<and>
                 status_rank (status r) \<le> status_rank s'" if "\<not> terminal (status r)"
    using process_status[OF assms, of "requestOf t (AI_SERVICE_URL env) d" "actionOf t" env]
    by (intro rank_forward[OF that]) (auto simp: processorOf_eq)
  have f: "\<exists>s'. status_at (snd (worker_failed fault (Some d) err w)) (outputId d) = Some s' \<and>
                 status_rank (status r) \<le> status_rank s'" if "\<not> terminal (status r)"
    using worker_failed_status[OF assms, of fault err]
    by (intro rank_forward[OF that]) auto
  from a b c p f show ?thesis by blast
qed

theorem status_writes_forward_witness:
  "outputs world1 (outputId job1) = Some row1 \<and> \<not> terminal (status row1) \<and>
   status_at (snd (updateGenerationStatus None (outputId job1) PROCESSING world1)) (outputId job1) =
     Some PROCESSING \<and>
   status_at (snd (generatedOutput_update None (outputId job1) (completedData resp1 2) world1))
     (outputId job1) = Some COMPLETED \<and>
   status_at (snd (handleJobFailure None job1 ''boom'' world1)) (outputId job1) = Some FAILED \<and>
   (\<exists>s'. status_at (snd (processorOf IMAGE env_ok job1 world1)) (outputId job1) = Some s' \<and>
         status_rank (status row1) \<le> status_rank s') \<and>
   (\<exists>s'. status_at (snd (worker_failed None (Some job1) timeout_error world1)) (outputId job1) =
           Some s' \<and> status_rank (status row1) \<le> status_rank s')"
proof -
  have a: "outputs world1 (outputId job1) = Some row1"
    by (simp add: world1_def job1_def)
  have b: "\<not> terminal (status row1)"
    by (simp add: row1_def)
  show ?thesis
    using a b status_writes_forward[OF a, of resp1 2 "''boom''" IMAGE env_ok None timeout_error]
    by simp
qed

subsection \<open>A job whose every AI service call fails\<close>

text \<open>
  C3, as stated, fails: the \<open>failed\<close> handlers do not look at the attempts made. An
  image job has 3 attempts; after the first call timed out, with two attempts still to
  come, the run continues from a world in which the row is already FAILED and the user
  has already been sent \<open>generation-failed\<close>. At the end three events have been sent.
\<close>

theorem failure_before_exhaustion_counterexample:
  "attempts (opts image_job1) = 3 \<and>
   workerRun IMAGE image_job1 envs_timeout world1 =
     runAttempts processImageGeneration imageWorker_completed job1 envs_timeout (Suc 0) (Suc 0)
       world_after_first \<and>
   status_at world_after_first ''o1'' = Some FAILED \<and>
   emitted world_after_first =
     [\<lparr>room = ''user-u1'', event = ''generation-failed'',
       payload = JObj [(''outputId'', JStr ''o1''), (''type'', JStr ''IMAGE''),
                       (''error'', JStr ''timeout of 300000ms exceeded'')]\<rparr>] \<and>
   length (emitted (final (workerRun IMAGE image_job1 envs_timeout world1))) = 3"
proof -
  have all: "\<forall>i\<le>n. backend_fails IMAGE (envs_timeout (0 + i)) job1 ((\<lambda>_. timeout_error) (0 + i))" for n
    by (simp add: envs_timeout_def env_timeout_fails)
  have a: "attempts (opts image_job1) = 3"
    by (simp add: image_job1_def imageQueueOptions_def)
  have left: "attempts (opts image_job1) - 1 = Suc (Suc 0)"
    by (simp add: a)
  have dat: "data image_job1 = job1"
    by (simp add: image_job1_def)
  have "processImageGeneration env_timeout job1 world1 =
          (Inl timeout_error, snd (processImageGeneration env_timeout job1 world1))"
    using process_backend_fails[OF world1_row env_timeout_fails] by simp
  then have p: "processImageGeneration (envs_timeout 0) job1 world1 =
                  (Inl timeout_error, world_processing)"
    by (simp add: envs_timeout_def world_processing_def)
  have f: "db_fault (envs_timeout 0) MarkFailed = None"
    by (simp add: envs_timeout_def env_timeout_def)
  have "runAttempts processImageGeneration imageWorker_completed job1 envs_timeout 0
          (Suc (Suc 0)) world1 =
        runAttempts processImageGeneration imageWorker_completed job1 envs_timeout (Suc 0) (Suc 0)
          (snd (worker_failed (db_fault (envs_timeout 0) MarkFailed) (Some job1) timeout_error
                  world_processing))"
    by (rule run_rejected_retry[where process=processImageGeneration and envs=envs_timeout
          and made=0, OF p])
  then have b: "workerRun IMAGE image_job1 envs_timeout world1 =
     runAttempts processImageGeneration imageWorker_completed job1 envs_timeout (Suc 0) (Suc 0)
       world_after_first"
    unfolding workerRun_def
    by (simp only: left dat f processorOf.simps completedOf.simps world_after_first_def)
  have c: "status_at world_after_first ''o1'' = Some FAILED"
    by (simp add: world_after_first_eq after_failures_def status_at_def job1_def)
  have d: "emitted world_after_first =
     [\<lparr>room = ''user-u1'', event = ''generation-failed'',
       payload = JObj [(''outputId'', JStr ''o1''), (''type'', JStr ''IMAGE''),
                       (''error'', JStr ''timeout of 300000ms exceeded'')]\<rparr>]"
    by (simp add: world_after_first_eq after_failures_def failedEvent_def job1_def world1_def
        timeout_error_def)
  have "runAttempts (processorOf IMAGE) (completedOf IMAGE) job1 envs_timeout 0 (Suc (Suc 0)) world1 =
          \<lparr>finished = JobFailed, attemptsMade = Suc (0 + Suc (Suc 0)),
            final = after_failures IMAGE job1 envs_timeout (\<lambda>_. timeout_error) 0
                      (Suc (0 + Suc (Suc 0))) row1 world1\<rparr>"
    by (rule run_all_backend_fail[OF all world1_row])
  then have "final (workerRun IMAGE image_job1 envs_timeout world1) =
               after_failures IMAGE job1 envs_timeout (\<lambda>_. timeout_error) 0
                      (Suc (0 + Suc (Suc 0))) row1 world1"
    unfolding workerRun_def by (simp only: left dat job_run.simps)
  then have e: "length (emitted (final (workerRun IMAGE image_job1 envs_timeout world1))) = 3"
    by (simp add: after_failures_def world1_def)
  from a b c d e show ?thesis by blast
qed

text \<open>
  C3, amended. For a job with at least one configured attempt whose every AI service call
  fails, while its row exists and the database accepts the writes: the processor runs
  exactly the configured number of attempts, one request each, and the job ends failed;
  the failure handler runs after every failed attempt, so that after the attempts
  \<open>0, \<dots>, n\<close>, whether or not more are to come, the row is FAILED with the message of
  the error of attempt \<open>n\<close> and one \<open>generation-failed\<close> event per attempt made has
  been emitted.
\<close>

theorem all_attempts_fail:
  assumes "outputs w (outputId (data j)) = Some r"
    and "0 < attempts (opts j)"
    and "\<forall>i<attempts (opts j). backend_fails t (envs i) (data j) (errs i)"
  shows "workerRun t j envs w =
           \<lparr>finished = JobFailed, attemptsMade = attempts (opts j),
            final = after_failures t (data j) envs errs 0 (attempts (opts j)) r w\<rparr> \<and>
         (\<forall>n. Suc n < attempts (opts j) \<longrightarrow>
            workerRun t j envs w =
              runAttempts (processorOf t) (completedOf t) (data j) envs (Suc n)
                (attempts (opts j) - Suc (Suc n))
                (after_failures t (data j) envs errs 0 (Suc n) r w))"
proof -
  obtain N where N: "attempts (opts j) = Suc N"
    using assms(2) by (cases "attempts (opts j)") simp_all
  have all: "\<forall>i\<le>N. backend_fails t (envs (0 + i)) (data j) (errs (0 + i))"
    using assms(3) N by simp
  have "runAttempts (processorOf t) (completedOf t) (data j) envs 0 N w =
          \<lparr>finished = JobFailed, attemptsMade = Suc (0 + N),
           final = after_failures t (data j) envs errs 0 (Suc (0 + N)) r w\<rparr>"
    by (rule run_all_backend_fail[OF all assms(1)])
  then have total: "workerRun t j envs w =
           \<lparr>finished = JobFailed, attemptsMade = attempts (opts j),
            final = after_failures t (data j) envs errs 0 (attempts (opts j)) r w\<rparr>"
    by (simp add: workerRun_def N)
  have step: "workerRun t j envs w =
              runAttempts (processorOf t) (completedOf t) (data j) envs (Suc n)
                (attempts (opts j) - Suc (Suc n))
                (after_failures t (data j) envs errs 0 (Suc n) r w)"
    if "Suc n < attempts (opts j)" for n
  proof -
    from that N obtain m where m: "N = Suc (n + m)"
      by (metis Suc_less_eq less_iff_Suc_add)
    have pre: "\<forall>i\<le>n. backend_fails t (envs (0 + i)) (data j) (errs (0 + i))"
      using all m by simp
    have "runAttempts (processorOf t) (completedOf t) (data j) envs 0 (Suc (n + m)) w =
            runAttempts (processorOf t) (completedOf t) (data j) envs (Suc (0 + n)) m
              (after_failures t (data j) envs errs 0 (Suc (0 + n)) r w)"
      by (rule run_after_failures[OF pre assms(1)])
    then show ?thesis
      by (simp add: workerRun_def N m)
  qed
  from total step show ?thesis by blast
qed

theorem all_attempts_fail_witness:
  "outputs world1 (outputId (data image_job1)) = Some row1 \<and>
   attempts (opts image_job1) = 3 \<and>
   finished (workerRun IMAGE image_job1 envs_timeout world1) = JobFailed \<and>
   attemptsMade (workerRun IMAGE image_job1 envs_timeout world1) = 3 \<and>
   outputs (final (workerRun IMAGE image_job1 envs_timeout world1)) ''o1'' =
     Some (row1\<lparr>status := FAILED, errorMessage := Some ''timeout of 300000ms exceeded''\<rparr>) \<and>
   length (requests (final (workerRun IMAGE image_job1 envs_timeout world1))) = 3 \<and>
   emitted (final (workerRun IMAGE image_job1 envs_timeout world1)) =
     [failedEvent job1 ''timeout of 300000ms exceeded'',
      failedEvent job1 ''timeout of 300000ms exceeded'',
      failedEvent job1 ''timeout of 300000ms exceeded'']"
proof -
  have a: "outputs world1 (outputId (data image_job1)) = Some row1"
    by (simp add: image_job1_def world1_row)
  have b: "attempts (opts image_job1) = 3"
    by (simp add: image_job1_def imageQueueOptions_def)
  have c: "0 < attempts (opts image_job1)"
    by (simp add: b)
  have d: "\<forall>i<attempts (opts image_job1).
             backend_fails IMAGE (envs_timeout i) (data image_job1) ((\<lambda>_. timeout_error) i)"
    by (simp add: envs_timeout_def image_job1_def env_timeout_fails)
  have three: "[0..<3] = [0, 1, 2]"
    by (simp add: upt_rec)
  from all_attempts_fail[OF a c d] show ?thesis
    using a b
    by (simp add: after_failures_def image_job1_def job1_def world1_def timeout_error_def three)
qed

subsection \<open>A job that succeeds in the end\<close>





end
